theory Spec2Isabelle
  imports Complex_Main
begin

section \<open>The game simulation of \<^verbatim>\<open>src/src/App.js\<close>\<close>

text \<open>
  The simulation core of the game: the classes \<^verbatim>\<open>Bird\<close> and \<^verbatim>\<open>Pipe\<close> and the
  methods of the component \<^verbatim>\<open>Game\<close> that change the session. Drawing is left out: it
  reads the session and writes to the canvas only.

  Conventions of the embedding.
  \<^item> A JavaScript number that holds a coordinate, a height or a velocity is a \<open>real\<close>:
    arithmetic is exact, the rounding of IEEE doubles is not modelled. The score and the
    frame counter only ever hold natural numbers and are \<open>nat\<close>.
  \<^item> \<^verbatim>\<open>Math.random()\<close> is a parameter \<open>r\<close> of the functions that draw from it; it
    returns a number with \<open>0 \<le> r\<close> and \<open>r < 1\<close>.
  \<^item> \<^verbatim>\<open>this.setState\<close> takes effect at once. The handlers are installed with
    \<^verbatim>\<open>document.addEventListener\<close> and the loop with \<^verbatim>\<open>setInterval\<close>, so they run outside
    the batching of React 16 (the version the repository names), where \<^verbatim>\<open>setState\<close>
    updates \<^verbatim>\<open>this.state\<close> before it returns.
  \<^item> The browser's interval timers are part of the state: \<open>active\<close> is the set of the
    handles whose callback \<^verbatim>\<open>gameLoop\<close> still fires, \<open>nextHandle\<close> the handle the next
    \<^verbatim>\<open>setInterval\<close> returns. \<^verbatim>\<open>clearInterval\<close> removes one handle and is silent on a
    handle that is not active.
  \<^item> \<open>submitted\<close> lists the scores handed to \<^verbatim>\<open>submitScore\<close>, oldest first.
  \<^item> A session is modelled from \<^verbatim>\<open>componentDidMount\<close> on, where \<^verbatim>\<open>this.bird\<close> is
    never \<^verbatim>\<open>null\<close>.
  \<^item> The fields \<^verbatim>\<open>x\<close> and \<^verbatim>\<open>y\<close> of the two classes are \<open>bird_x\<close>, \<open>bird_y\<close>, \<open>pipe_x\<close>
    and \<open>pipe_y\<close>; the field \<^verbatim>\<open>top\<close> of a bounding box is \<open>top_edge\<close>; the methods
    \<^verbatim>\<open>update\<close> and \<^verbatim>\<open>getBounds\<close> carry the name of their class.
\<close>

subsection \<open>Constants\<close>

definition HEIGHT :: real where "HEIGHT = 500"
definition WIDTH :: real where "WIDTH = 800"
definition PIPE_WIDTH :: real where "PIPE_WIDTH = 60"
definition MIN_PIPE_HEIGHT :: real where "MIN_PIPE_HEIGHT = 30"
definition FPS :: real where "FPS = 60"
definition PIPE_GAP :: real where "PIPE_GAP = 200"

subsection \<open>Bounding boxes\<close>

record bounds =
  left :: real
  right :: real
  top_edge :: real
  bottom :: real

subsection \<open>Class \<^verbatim>\<open>Bird\<close>\<close>

record bird =
  bird_x :: real
  bird_y :: real
  gravity :: real
  velocity :: real
  radius :: real

definition newBird :: bird where
  "newBird = \<lparr>bird_x = 150, bird_y = HEIGHT / 2, gravity = 0.4, velocity = 0, radius = 12\<rparr>"

definition Bird_update :: "bird \<Rightarrow> bird" where
  "Bird_update b =
     (let b1 = b\<lparr>velocity := velocity b + gravity b\<rparr>
      in b1\<lparr>bird_y := bird_y b1 + velocity b1\<rparr>)"

definition jump :: "bird \<Rightarrow> bird" where
  "jump b = b\<lparr>velocity := - 8\<rparr>"

definition Bird_getBounds :: "bird \<Rightarrow> bounds" where
  "Bird_getBounds b =
     \<lparr>left = bird_x b - radius b, right = bird_x b + radius b,
      top_edge = bird_y b - radius b, bottom = bird_y b + radius b\<rparr>"

subsection \<open>Class \<^verbatim>\<open>Pipe\<close>\<close>

record pipe =
  isDead :: bool
  pipe_x :: real
  width :: real
  isBottom :: bool
  scored :: bool
  pipe_y :: real
  height :: real

definition newPipe :: "real \<Rightarrow> bool \<Rightarrow> pipe" where
  "newPipe h b =
     \<lparr>isDead = False, pipe_x = WIDTH, width = PIPE_WIDTH, isBottom = b, scored = False,
      pipe_y = (if b then HEIGHT - h else 0), height = h\<rparr>"

definition Pipe_update :: "pipe \<Rightarrow> pipe" where
  "Pipe_update p =
     (let p1 = p\<lparr>pipe_x := pipe_x p - 1.5\<rparr>
      in if pipe_x p1 + PIPE_WIDTH < 0 then p1\<lparr>isDead := True\<rparr> else p1)"

definition Pipe_getBounds :: "pipe \<Rightarrow> bounds" where
  "Pipe_getBounds p =
     \<lparr>left = pipe_x p, right = pipe_x p + width p,
      top_edge = pipe_y p, bottom = pipe_y p + height p\<rparr>"

subsection \<open>Component \<^verbatim>\<open>Game\<close>\<close>

record game =
  gameStarted :: bool
  gameOver :: bool
  score :: nat
  paused :: bool
  frameCount :: nat
  pipes :: "pipe list"
  bird :: bird
  loop :: "nat option"
  active :: "nat set"
  nextHandle :: nat
  submitted :: "nat list"

text \<open>The session the constructor leaves, with the bird \<^verbatim>\<open>initGame\<close> creates on mount.\<close>

definition mounted :: game where
  "mounted =
     \<lparr>gameStarted = False, gameOver = False, score = 0, paused = False, frameCount = 0,
      pipes = [], bird = newBird, loop = None, active = {}, nextHandle = 1,
      submitted = []\<rparr>"

text \<open>\<^verbatim>\<open>this.loop = setInterval(this.gameLoop, 1000 / FPS)\<close> and \<^verbatim>\<open>clearInterval(this.loop)\<close>;
  clearing \<^verbatim>\<open>null\<close> clears nothing.\<close>

definition setLoop :: "game \<Rightarrow> game" where
  "setLoop g =
     g\<lparr>loop := Some (nextHandle g), active := insert (nextHandle g) (active g),
       nextHandle := Suc (nextHandle g)\<rparr>"

definition clearLoop :: "game \<Rightarrow> game" where
  "clearLoop g = (case loop g of None \<Rightarrow> g | Some h \<Rightarrow> g\<lparr>active := active g - {h}\<rparr>)"

definition initGame :: "game \<Rightarrow> game" where
  "initGame g =
     g\<lparr>bird := newBird, pipes := [], frameCount := 0,
       score := 0, gameOver := False, gameStarted := False\<rparr>"

definition startGame :: "game \<Rightarrow> game" where
  "startGame g =
     (if \<not> gameStarted g \<and> \<not> gameOver g then setLoop (g\<lparr>gameStarted := True\<rparr>) else g)"

definition togglePause :: "game \<Rightarrow> game" where
  "togglePause g =
     (if gameStarted g \<and> \<not> gameOver g
      then (let g1 = (if paused g then setLoop g else clearLoop g)
            in g1\<lparr>paused := \<not> paused g1\<rparr>)
      else g)"

text \<open>\<^verbatim>\<open>if (this.loop)\<close> is false on \<^verbatim>\<open>null\<close> and on the number 0.\<close>

definition restart :: "game \<Rightarrow> game" where
  "restart g =
     initGame (case loop g of None \<Rightarrow> g | Some h \<Rightarrow> if h \<noteq> 0 then clearLoop g else g)"

datatype key = Space | KeyP | KeyR | OtherKey

fun onKeyDown :: "key \<Rightarrow> game \<Rightarrow> game" where
  "onKeyDown Space g =
     (let g1 = (if \<not> gameStarted g then startGame g else g)
      in if gameStarted g1 \<and> \<not> gameOver g1 \<and> \<not> paused g1
         then g1\<lparr>bird := jump (bird g1)\<rparr> else g1)"
| "onKeyDown KeyP g = togglePause g"
| "onKeyDown KeyR g = restart g"
| "onKeyDown OtherKey g = g"

definition onClick :: "game \<Rightarrow> game" where
  "onClick g =
     (if \<not> gameStarted g then startGame g
      else if gameStarted g \<and> \<not> gameOver g \<and> \<not> paused g
      then g\<lparr>bird := jump (bird g)\<rparr> else g)"

definition generatePipes :: "real \<Rightarrow> game \<Rightarrow> pipe list" where
  "generatePipes r g =
     (let minHeight = MIN_PIPE_HEIGHT;
          isEarlyGame = (score g < 3);
          currentGap = (if isEarlyGame then PIPE_GAP + 50 else PIPE_GAP);
          maxHeight = HEIGHT - currentGap - minHeight;
          topPipeHeight = minHeight + r * (maxHeight - minHeight);
          bottomPipeHeight = HEIGHT - topPipeHeight - currentGap
      in [newPipe topPipeHeight False, newPipe bottomPipeHeight True])"

definition checkCollisions :: "game \<Rightarrow> bool" where
  "checkCollisions g =
     (let birdBounds = Bird_getBounds (bird g)
      in if top_edge birdBounds \<le> - 5 \<or> bottom birdBounds \<ge> HEIGHT + 5 then True
         else (let margin = 3
               in list_ex (\<lambda>p.
                    let pipeBounds = Pipe_getBounds p
                    in right birdBounds - margin > left pipeBounds + margin \<and>
                       left birdBounds + margin < right pipeBounds - margin \<and>
                       bottom birdBounds - margin > top_edge pipeBounds + margin \<and>
                       top_edge birdBounds + margin < bottom pipeBounds - margin)
                  (pipes g)))"

text \<open>The callback of \<^verbatim>\<open>this.pipes.forEach\<close> in \<^verbatim>\<open>update\<close>, on one pipe and the score
  so far, and the loop over the list.\<close>

definition visitPipe :: "bird \<Rightarrow> pipe \<Rightarrow> nat \<Rightarrow> pipe \<times> nat" where
  "visitPipe b p s =
     (let p1 = Pipe_update p
      in if \<not> scored p1 \<and> pipe_x p1 + PIPE_WIDTH < bird_x b \<and> \<not> isBottom p1
         then (p1\<lparr>scored := True\<rparr>, s + 1) else (p1, s))"

fun forEachPipe :: "bird \<Rightarrow> pipe list \<Rightarrow> nat \<Rightarrow> pipe list \<times> nat" where
  "forEachPipe b [] s = ([], s)"
| "forEachPipe b (p # ps) s =
     (case visitPipe b p s of (p', s') \<Rightarrow>
        (case forEachPipe b ps s' of (ps', s'') \<Rightarrow> (p' # ps', s'')))"

definition update :: "real \<Rightarrow> game \<Rightarrow> game" where
  "update r g =
     (let g1 = g\<lparr>frameCount := frameCount g + 1\<rparr>;
          g2 = (if frameCount g1 mod 240 = 0
                then g1\<lparr>pipes := pipes g1 @ generatePipes r g1\<rparr> else g1);
          g3 = (case forEachPipe (bird g2) (pipes g2) (score g2) of
                  (ps, s) \<Rightarrow> g2\<lparr>pipes := ps, score := s\<rparr>);
          g4 = g3\<lparr>pipes := filter (\<lambda>p. \<not> isDead p) (pipes g3)\<rparr>;
          g5 = g4\<lparr>bird := Bird_update (bird g4)\<rparr>
      in if checkCollisions g5
         then clearLoop (g5\<lparr>gameOver := True, submitted := submitted g5 @ [score g5]\<rparr>)
         else g5)"

definition gameLoop :: "real \<Rightarrow> game \<Rightarrow> game" where
  "gameLoop r g = (if \<not> paused g then update r g else g)"

subsection \<open>Notions of the specification\<close>

text \<open>The four states of the session, read off the three flags of \<^verbatim>\<open>this.state\<close>.\<close>

datatype phase = Idle | Running | Paused | Over

definition session_state :: "game \<Rightarrow> phase" where
  "session_state g =
     (if gameOver g then Over
      else if \<not> gameStarted g then Idle
      else if paused g then Paused else Running)"

text \<open>The collision detector in the specification's words: an out-of-bounds test with a
  margin, and the overlap of two boxes after each is shrunk inward on all four sides.\<close>

definition outOfBounds :: "real \<Rightarrow> real \<Rightarrow> bounds \<Rightarrow> bool" where
  "outOfBounds worldHeight margin a \<longleftrightarrow>
     top_edge a \<le> - margin \<or> bottom a \<ge> worldHeight + margin"

definition shrink :: "real \<Rightarrow> bounds \<Rightarrow> bounds" where
  "shrink m a =
     \<lparr>left = left a + m, right = right a - m, top_edge = top_edge a + m, bottom = bottom a - m\<rparr>"

definition overlaps :: "bounds \<Rightarrow> bounds \<Rightarrow> bool" where
  "overlaps a c \<longleftrightarrow>
     right a > left c \<and> left a < right c \<and> bottom a > top_edge c \<and> top_edge a < bottom c"

text \<open>An upper pipe, not yet scored, whose trailing edge is left of the bird once the pipe
  has made this tick's move: the pipe that earns a point in this tick.\<close>

definition earnsPoint :: "bird \<Rightarrow> pipe \<Rightarrow> bool" where
  "earnsPoint b p \<longleftrightarrow>
     scored p = False \<and> isBottom p = False \<and> pipe_x (Pipe_update p) + PIPE_WIDTH < bird_x b"

text \<open>The pipe as the callback of \<^verbatim>\<open>forEach\<close> leaves it.\<close>

definition visited :: "bird \<Rightarrow> pipe \<Rightarrow> pipe" where
  "visited b p = fst (visitPipe b p 0)"

text \<open>The pipes a tick works on: those of the session, and the pair pushed in this tick.\<close>

definition spawned :: "real \<Rightarrow> game \<Rightarrow> pipe list" where
  "spawned r g =
     pipes g @ (if (frameCount g + 1) mod 240 = 0 then generatePipes r g else [])"

text \<open>What one tick does to the pipes and the score: lines 273 to 282 of \<^verbatim>\<open>update\<close>.\<close>

definition pipesTick :: "bird \<Rightarrow> pipe list \<times> nat \<Rightarrow> pipe list \<times> nat" where
  "pipesTick b = (\<lambda>(ps, s).
     case forEachPipe b ps s of (ps', s') \<Rightarrow> (filter (\<lambda>p. \<not> isDead p) ps', s'))"

text \<open>A session that is over, with a pair of pipes on the canvas.\<close>

definition crashed :: game where
  "crashed =
     mounted\<lparr>gameStarted := True, gameOver := True, score := 4, frameCount := 1300,
       pipes := [(newPipe 100 False)\<lparr>pipe_x := 140\<rparr>, (newPipe 200 True)\<lparr>pipe_x := 140\<rparr>],
       bird := newBird\<lparr>bird_y := 90, velocity := - 4\<rparr>,
       loop := Some 1, nextHandle := 2, submitted := [4]\<rparr>"

text \<open>A pipe created with height \<open>h\<close> and role \<open>d\<close> as it is after \<open>n\<close> ticks, while it is
  on the canvas, with the bird at 150.\<close>

definition pipeAt :: "nat \<Rightarrow> real \<Rightarrow> bool \<Rightarrow> pipe" where
  "pipeAt n h d = (newPipe h d)\<lparr>pipe_x := WIDTH - 1.5 * real n, scored := (\<not> d \<and> 474 \<le> n)\<rparr>"

text \<open>A running session whose only pair is about to pass the bird.\<close>

definition passing :: game where
  "passing =
     mounted\<lparr>gameStarted := True, frameCount := 473,
       pipes := [pipeAt 473 100 False, pipeAt 473 150 True],
       loop := Some 1, active := {1}, nextHandle := 2\<rparr>"

text \<open>The session after the keys Space, P, R, Space, P on a mounted game.\<close>

definition leaked :: game where
  "leaked =
     onKeyDown KeyP (onKeyDown Space (onKeyDown KeyR (onKeyDown KeyP (onKeyDown Space mounted))))"

section \<open>Properties\<close>

subsection \<open>Field lemmas\<close>

lemmas game_consts = HEIGHT_def WIDTH_def PIPE_WIDTH_def MIN_PIPE_HEIGHT_def PIPE_GAP_def

lemma clearLoop_fields [simp]:
  "bird (clearLoop g) = bird g" "pipes (clearLoop g) = pipes g" "score (clearLoop g) = score g"
  "frameCount (clearLoop g) = frameCount g" "gameStarted (clearLoop g) = gameStarted g"
  "gameOver (clearLoop g) = gameOver g" "paused (clearLoop g) = paused g"
  "loop (clearLoop g) = loop g" "nextHandle (clearLoop g) = nextHandle g"
  "submitted (clearLoop g) = submitted g"
  by (simp_all add: clearLoop_def split: option.split)

lemma initGame_fields [simp]:
  "bird (initGame g) = newBird" "pipes (initGame g) = []" "frameCount (initGame g) = 0"
  "score (initGame g) = 0" "gameOver (initGame g) = False" "gameStarted (initGame g) = False"
  "paused (initGame g) = paused g" "loop (initGame g) = loop g"
  "active (initGame g) = active g" "nextHandle (initGame g) = nextHandle g"
  "submitted (initGame g) = submitted g"
  by (simp_all add: initGame_def)

lemma restart_fields:
  "bird (restart g) = newBird" "pipes (restart g) = []" "frameCount (restart g) = 0"
  "score (restart g) = 0" "gameOver (restart g) = False" "gameStarted (restart g) = False"
  "paused (restart g) = paused g" "loop (restart g) = loop g"
  "nextHandle (restart g) = nextHandle g" "submitted (restart g) = submitted g"
  by (simp_all add: restart_def split: option.split)

lemma restart_active:
  "active (restart g) =
     (case loop g of None \<Rightarrow> active g | Some h \<Rightarrow> if h \<noteq> 0 then active g - {h} else active g)"
  by (simp add: restart_def clearLoop_def split: option.split)

lemma Pipe_update_fields [simp]:
  "pipe_x (Pipe_update p) = pipe_x p - 1.5" "scored (Pipe_update p) = scored p"
  "isBottom (Pipe_update p) = isBottom p" "width (Pipe_update p) = width p"
  "height (Pipe_update p) = height p" "pipe_y (Pipe_update p) = pipe_y p"
  "isDead (Pipe_update p) = (isDead p \<or> pipe_x p - 1.5 + PIPE_WIDTH < 0)"
  by (auto simp add: Pipe_update_def Let_def)

lemma generatePipes_frameCount [simp]:
  "generatePipes r (g\<lparr>frameCount := n\<rparr>) = generatePipes r g"
  by (simp add: generatePipes_def)

lemma generatePipes_shape:
  "\<exists>h1 h2. generatePipes r g = [newPipe h1 False, newPipe h2 True]"
  unfolding generatePipes_def Let_def by blast

subsection \<open>The loop over the pipes\<close>

lemma visitPipe_eq:
  "visitPipe b p s =
     (if earnsPoint b p then ((Pipe_update p)\<lparr>scored := True\<rparr>, s + 1) else (Pipe_update p, s))"
  by (simp add: visitPipe_def earnsPoint_def Let_def)

lemma forEachPipe_eq:
  "forEachPipe b ps s = (map (visited b) ps, s + length (filter (earnsPoint b) ps))"
  by (induction ps arbitrary: s) (simp_all add: visitPipe_eq visited_def)

lemma pipesTick_eq:
  "pipesTick b (ps, s) =
     (filter (\<lambda>p. \<not> isDead p) (map (visited b) ps), s + length (filter (earnsPoint b) ps))"
  by (simp add: pipesTick_def forEachPipe_eq)

lemma update_frameCount: "frameCount (update r g) = frameCount g + 1"
  by (simp add: update_def Let_def split: prod.split)

lemma update_bird: "bird (update r g) = Bird_update (bird g)"
  by (simp add: update_def Let_def split: prod.split)

lemma update_pipes_score:
  "(pipes (update r g), score (update r g)) = pipesTick (bird g) (spawned r g, score g)"
  by (simp add: update_def Let_def spawned_def pipesTick_eq forEachPipe_eq)

lemma update_pipes:
  "pipes (update r g) = filter (\<lambda>p. \<not> isDead p) (map (visited (bird g)) (spawned r g))"
  using update_pipes_score [of r g] by (simp add: pipesTick_eq)

lemma update_score:
  "score (update r g) = score g + length (filter (earnsPoint (bird g)) (spawned r g))"
  using update_pipes_score [of r g] by (simp add: pipesTick_eq)

lemma visited_newPipe_alive: "isDead (visited b (newPipe h d)) = False"
  by (simp add: visited_def visitPipe_eq newPipe_def game_consts)

lemma filter_visited_generated:
  "filter (\<lambda>p. \<not> isDead p) (map (visited b) (generatePipes r g)) =
     map (visited b) (generatePipes r g)"
proof -
  obtain h1 h2 where "generatePipes r g = [newPipe h1 False, newPipe h2 True]"
    using generatePipes_shape by blast
  then show ?thesis by (simp add: visited_newPipe_alive)
qed

lemma visited_eq:
  "visited b p = (if earnsPoint b p then (Pipe_update p)\<lparr>scored := True\<rparr> else Pipe_update p)"
  by (simp add: visited_def visitPipe_eq)

lemma visited_scored: "scored (visited c p) = (scored p \<or> earnsPoint c p)"
  by (simp add: visited_eq)

lemma earnsPoint_bottom: "filter (earnsPoint c) (filter isBottom ps) = []"
  by (induction ps) (simp_all add: earnsPoint_def)

lemma pipesTick_append:
  "pipesTick b (xs @ ys, s) =
     (fst (pipesTick b (xs, 0)) @ fst (pipesTick b (ys, 0)),
      s + snd (pipesTick b (xs, 0)) + snd (pipesTick b (ys, 0)))"
  by (simp add: pipesTick_eq)

subsection \<open>The life of a pair\<close>

lemma pipeAt_0: "pipeAt 0 h d = newPipe h d"
  by (simp add: pipeAt_def newPipe_def)

lemma pipeAt_alive: "isDead (pipeAt n h d) = False"
  by (simp add: pipeAt_def newPipe_def)

lemma earnsPoint_pipeAt:
  assumes "bird_x b = 150"
  shows "earnsPoint b (pipeAt n h d) \<longleftrightarrow> \<not> d \<and> n = 473"
proof -
  consider "n < 473" | "n = 473" | "473 < n" by linarith
  then show ?thesis
  proof cases
    case 1
    then have "real n \<le> 472" by simp
    with 1 assms show ?thesis
      by (simp add: earnsPoint_def pipeAt_def newPipe_def game_consts)
  next
    case 2
    with assms show ?thesis
      by (simp add: earnsPoint_def pipeAt_def newPipe_def game_consts)
  next
    case 3
    then show ?thesis
      by (simp add: earnsPoint_def pipeAt_def newPipe_def game_consts)
  qed
qed

lemma visited_pipeAt:
  assumes "bird_x b = 150" and "n < 573"
  shows "visited b (pipeAt n h d) = pipeAt (Suc n) h d"
proof -
  from assms(2) have le: "real n \<le> 572" by simp
  have alive: "\<not> (pipe_x (pipeAt n h d) - 1.5 + PIPE_WIDTH < 0)"
    using le by (simp add: pipeAt_def newPipe_def game_consts)
  have upd: "Pipe_update (pipeAt n h d) = (pipeAt n h d)\<lparr>pipe_x := WIDTH - 1.5 * real (Suc n)\<rparr>"
    using alive by (simp add: Pipe_update_def Let_def) (simp add: pipeAt_def newPipe_def algebra_simps)
  have "visited b (pipeAt n h d) =
          (if \<not> d \<and> n = 473
           then (pipeAt n h d)\<lparr>pipe_x := WIDTH - 1.5 * real (Suc n), scored := True\<rparr>
           else (pipeAt n h d)\<lparr>pipe_x := WIDTH - 1.5 * real (Suc n)\<rparr>)"
    unfolding visited_eq upd earnsPoint_pipeAt [OF assms(1)] by simp
  also have "\<dots> = pipeAt (Suc n) h d"
    by (auto simp add: pipeAt_def newPipe_def)
  finally show ?thesis .
qed

lemma visited_pipeAt_dead:
  "isDead (visited b (pipeAt 573 h d))"
  by (simp add: visited_eq pipeAt_def newPipe_def game_consts)

lemma pair_lifetime:
  assumes "bird_x b = 150"
  shows "(pipesTick b ^^ n) ([newPipe h1 False, newPipe h2 True], s) =
           (if n < 574 then [pipeAt n h1 False, pipeAt n h2 True] else [],
            s + (if 474 \<le> n then 1 else 0))"
proof (induction n)
  case 0
  show ?case by (simp add: pipeAt_0)
next
  case (Suc n)
  have step: "(pipesTick b ^^ Suc n) ([newPipe h1 False, newPipe h2 True], s) =
                pipesTick b (if n < 574 then [pipeAt n h1 False, pipeAt n h2 True] else [],
                  s + (if 474 \<le> n then 1 else 0))"
    using Suc by simp
  consider "n < 573" | "n = 573" | "574 \<le> n" by linarith
  then show ?case
  proof cases
    case 1
    with assms show ?thesis
      unfolding step
      by (auto simp add: pipesTick_eq visited_pipeAt pipeAt_alive earnsPoint_pipeAt)
  next
    case 2
    with assms show ?thesis
      unfolding step
      by (simp add: pipesTick_eq visited_pipeAt_dead earnsPoint_pipeAt)
  next
    case 3
    then show ?thesis
      unfolding step by (simp add: pipesTick_eq)
  qed
qed

subsection \<open>Scoring\<close>

text \<open>
  Claim C1. A tick adds to the score the number of pipes, among those the tick works on,
  that are upper pipes, were not scored before and have their trailing edge
  (\<open>pipe_x + PIPE_WIDTH\<close>, every pipe being \<open>PIPE_WIDTH\<close> wide) left of the bird after the
  move: the score never decreases in a tick. Each pipe is handled on its own and adds 1 or
  0; a lower pipe adds 0; the flag \<open>scored\<close> of a pipe after the tick is its flag before,
  or true when the pipe earned the point, so it is never reset. With the bird at 150, a
  pair from \<open>generatePipes\<close> has added exactly 0 to the score up to its 473rd tick and
  exactly 1 from its 474th tick on, and it is removed in its 574th tick: over its life it
  adds exactly 1.
\<close>

theorem score_counts_upper_pipes:
  assumes "bird_x b = 150"
  shows "score (update r g) = score g + length (filter (earnsPoint (bird g)) (spawned r g)) \<and>
         score g \<le> score (update r g) \<and>
         (pipes (update r g), score (update r g)) = pipesTick (bird g) (spawned r g, score g) \<and>
         pipesTick c (xs @ ys, s) =
           (fst (pipesTick c (xs, 0)) @ fst (pipesTick c (ys, 0)),
            s + snd (pipesTick c (xs, 0)) + snd (pipesTick c (ys, 0))) \<and>
         pipesTick c ([p], s) =
           (if isDead (visited c p) then [] else [visited c p],
            s + (if earnsPoint c p then 1 else 0)) \<and>
         earnsPoint c p =
           (scored p = False \<and> isBottom p = False \<and>
            pipe_x (visited c p) + PIPE_WIDTH < bird_x c) \<and>
         width (visited c p) = width p \<and> width (newPipe h d) = PIPE_WIDTH \<and>
         isBottom (visited c p) = isBottom p \<and>
         filter (earnsPoint c) (filter isBottom ps) = [] \<and>
         scored (visited c p) = (scored p \<or> earnsPoint c p) \<and>
         snd ((pipesTick b ^^ n) (generatePipes r g, s)) = s + (if 474 \<le> n then 1 else 0) \<and>
         (fst ((pipesTick b ^^ n) (generatePipes r g, s)) = []) = (574 \<le> n)"
proof -
  obtain h1 h2 where gen: "generatePipes r g = [newPipe h1 False, newPipe h2 True]"
    using generatePipes_shape by blast
  have c1: "score (update r g) = score g + length (filter (earnsPoint (bird g)) (spawned r g))"
    by (rule update_score)
  have c2: "score g \<le> score (update r g)"
    by (simp add: update_score)
  have c3: "(pipes (update r g), score (update r g)) = pipesTick (bird g) (spawned r g, score g)"
    by (rule update_pipes_score)
  have c4: "pipesTick c (xs @ ys, s) =
           (fst (pipesTick c (xs, 0)) @ fst (pipesTick c (ys, 0)),
            s + snd (pipesTick c (xs, 0)) + snd (pipesTick c (ys, 0)))"
    by (rule pipesTick_append)
  have c5: "pipesTick c ([p], s) =
           (if isDead (visited c p) then [] else [visited c p],
            s + (if earnsPoint c p then 1 else 0))"
    by (simp add: pipesTick_eq)
  have c6: "earnsPoint c p =
           (scored p = False \<and> isBottom p = False \<and>
            pipe_x (visited c p) + PIPE_WIDTH < bird_x c)"
    by (auto simp add: earnsPoint_def visited_eq)
  have c7: "width (visited c p) = width p" and c8: "width (newPipe h d) = PIPE_WIDTH"
    and c9: "isBottom (visited c p) = isBottom p"
    by (simp_all add: visited_eq newPipe_def)
  have c10: "filter (earnsPoint c) (filter isBottom ps) = []"
    by (rule earnsPoint_bottom)
  have c11: "scored (visited c p) = (scored p \<or> earnsPoint c p)"
    by (rule visited_scored)
  have c12: "snd ((pipesTick b ^^ n) (generatePipes r g, s)) = s + (if 474 \<le> n then 1 else 0)"
    and c13: "(fst ((pipesTick b ^^ n) (generatePipes r g, s)) = []) = (574 \<le> n)"
    unfolding gen pair_lifetime [OF assms] by auto
  show ?thesis
    by (intro conjI) (rule c1 c2 c3 c4 c5 c6 c7 c8 c9 c10 c11 c12 c13)+
qed

theorem score_counts_upper_pipes_witness:
  "bird_x newBird = 150 \<and>
   score passing = 0 \<and> score (update 0 passing) = 1 \<and>
   snd ((pipesTick newBird ^^ 574) (generatePipes (1 / 2) mounted, 0)) = 1 \<and>
   fst ((pipesTick newBird ^^ 574) (generatePipes (1 / 2) mounted, 0)) = []"
proof -
  have h: "bird_x newBird = 150" by (simp add: newBird_def)
  note t = score_counts_upper_pipes [OF h, where c = newBird and p = "pipeAt 473 100 False"
      and xs = "[]" and ys = "[]" and s = 0 and h = 100 and d = False and ps = "[]"]
  have s: "spawned 0 passing = [pipeAt 473 100 False, pipeAt 473 150 True]"
    "bird passing = newBird" "score passing = 0"
    by (simp_all add: spawned_def passing_def mounted_def)
  have "score (update 0 passing) = 1"
    using t [where r = 0 and g = passing and n = 0, THEN conjunct1]
    by (simp add: s earnsPoint_pipeAt [OF h])
  moreover have "snd ((pipesTick newBird ^^ 574) (generatePipes (1 / 2) mounted, 0)) = 1 \<and>
        fst ((pipesTick newBird ^^ 574) (generatePipes (1 / 2) mounted, 0)) = []"
    using t [where r = "1 / 2" and g = mounted and n = 574] by simp
  ultimately show ?thesis
    using h s by simp
qed

subsection \<open>The bird\<close>

text \<open>
  Claim C2. In every tick the bird first adds its gravity to its velocity and then adds the
  new velocity to its vertical position; nothing else of the bird changes and no bound
  clamps the position. A tick of the running session (\<open>update\<close>, and \<open>gameLoop\<close> when the
  session is not paused) does exactly this step to the bird, whatever else the tick finds.
\<close>

theorem physics_step:
  "velocity (Bird_update b) = velocity b + gravity b \<and>
   bird_y (Bird_update b) = bird_y b + velocity (Bird_update b) \<and>
   bird_y (Bird_update b) = bird_y b + (velocity b + gravity b) \<and>
   bird_x (Bird_update b) = bird_x b \<and> gravity (Bird_update b) = gravity b \<and>
   radius (Bird_update b) = radius b \<and>
   bird (update r g) = Bird_update (bird g) \<and>
   bird (gameLoop r g) = (if paused g then bird g else Bird_update (bird g))"
  by (simp add: Bird_update_def gameLoop_def update_bird Let_def)

text \<open>
  Claim C7. \<open>jump\<close> sets the velocity to \<open>- 8\<close> whatever it was and changes nothing else.
  The bird is created with gravity \<open>0.4\<close> and velocity \<open>0\<close>: one tick gives velocity
  \<open>0.4\<close>, a jump followed by one tick gives \<open>- 7.6\<close>.
\<close>

theorem jump_overrides:
  "velocity (jump b) = - 8 \<and>
   jump b = b\<lparr>velocity := - 8\<rparr> \<and>
   velocity (Bird_update (jump b)) = - 8 + gravity b \<and>
   gravity newBird = 0.4 \<and> velocity newBird = 0 \<and>
   velocity (Bird_update newBird) = 0.4 \<and>
   velocity (Bird_update (jump newBird)) = - 7.6"
  by (simp add: jump_def Bird_update_def newBird_def Let_def)

subsection \<open>Collisions\<close>

text \<open>
  Claim C4. When the top of the bird's box is at most \<open>- 5\<close>, or its bottom at least
  \<open>HEIGHT + 5\<close>, \<open>checkCollisions\<close> is true whatever the pipes are. With height 500 and the
  bottom of the box at 507 it is true.
\<close>

theorem out_of_bounds_collides:
  assumes "top_edge (Bird_getBounds (bird g)) \<le> - 5 \<or>
           bottom (Bird_getBounds (bird g)) \<ge> HEIGHT + 5"
  shows "checkCollisions (g\<lparr>pipes := ps\<rparr>)"
  using assms by (auto simp add: checkCollisions_def Let_def)

theorem out_of_bounds_collides_witness:
  "HEIGHT = 500 \<and>
   bottom (Bird_getBounds (newBird\<lparr>bird_y := 495\<rparr>)) = 507 \<and>
   checkCollisions (mounted\<lparr>bird := newBird\<lparr>bird_y := 495\<rparr>, pipes := []\<rparr>) \<and>
   checkCollisions (mounted\<lparr>bird := newBird\<lparr>bird_y := 495\<rparr>, pipes := [newPipe 100 False]\<rparr>)"
  using out_of_bounds_collides [of "mounted\<lparr>bird := newBird\<lparr>bird_y := 495\<rparr>\<rparr>" "[]"]
    out_of_bounds_collides [of "mounted\<lparr>bird := newBird\<lparr>bird_y := 495\<rparr>\<rparr>" "[newPipe 100 False]"]
  by (simp add: Bird_getBounds_def newBird_def HEIGHT_def mounted_def)

text \<open>
  Claim C5. \<open>checkCollisions\<close> is true exactly when the bird is out of bounds (margin 5) or
  the bird's box and the box of some pipe of the session overlap on all four sides after
  both are shrunk inward by 3. It is a function of the session to a truth value: it
  returns no session, so it changes neither the bird nor a pipe.
\<close>

theorem collision_is_margin_overlap:
  "checkCollisions g \<longleftrightarrow>
     outOfBounds HEIGHT 5 (Bird_getBounds (bird g)) \<or>
     (\<exists>p \<in> set (pipes g).
        overlaps (shrink 3 (Bird_getBounds (bird g))) (shrink 3 (Pipe_getBounds p)))"
  by (auto simp add: checkCollisions_def Let_def outOfBounds_def shrink_def overlaps_def
      list_ex_iff)

subsection \<open>The pair of pipes\<close>

text \<open>
  Claim C3, as the code has it. For every draw \<open>r\<close> with \<open>0 \<le> r < 1\<close>, \<open>generatePipes\<close>
  returns two pipes, the upper one first and the lower one second, each at least
  \<open>MIN_PIPE_HEIGHT\<close> high, the upper hanging from 0 and the lower standing on \<open>HEIGHT\<close>.
  Their heights and the gap in force add up to \<open>HEIGHT\<close>, where the gap in force is
  \<open>PIPE_GAP + 50 = 250\<close> while the score is below 3 and \<open>PIPE_GAP = 200\<close> from score 3 on.
\<close>

theorem generatePipes_pair:
  assumes "0 \<le> r" and "r < 1"
  shows "\<exists>u l. generatePipes r g = [u, l] \<and> \<not> isBottom u \<and> isBottom l \<and>
           MIN_PIPE_HEIGHT \<le> height u \<and> MIN_PIPE_HEIGHT \<le> height l \<and>
           pipe_y u = 0 \<and> pipe_y l + height l = HEIGHT \<and>
           pipe_y l - (pipe_y u + height u) = (if score g < 3 then PIPE_GAP + 50 else PIPE_GAP) \<and>
           height u + height l + (if score g < 3 then PIPE_GAP + 50 else PIPE_GAP) = HEIGHT \<and>
           (if score g < 3 then height u + height l + 250 = 500
            else height u + height l + 200 = 500)"
proof -
  have a: "190 * r < 190" "240 * r < 240" using assms by simp_all
  show ?thesis
    using assms a by (simp add: generatePipes_def newPipe_def game_consts Let_def)
qed

theorem generatePipes_pair_witness:
  "(0::real) \<le> 1 / 2 \<and> (1::real) / 2 < 1 \<and>
   map height (generatePipes (1 / 2) (mounted\<lparr>score := 3\<rparr>)) = [150, 150] \<and>
   map isBottom (generatePipes (1 / 2) (mounted\<lparr>score := 3\<rparr>)) = [False, True]"
  using generatePipes_pair [of "1 / 2" "mounted\<lparr>score := 3\<rparr>"]
  by (simp add: generatePipes_def newPipe_def game_consts Let_def mounted_def)

text \<open>
  The claim as the specification words it fails at the start of every session: at score 0
  and draw 0 the heights are 30 and 220, which add up with the gap 200 to 450, not 500.
\<close>

theorem generatePipes_easy_gap_counterexample:
  "score mounted = 0 \<and>
   map height (generatePipes 0 mounted) = [30, 220] \<and>
   sum_list (map height (generatePipes 0 mounted)) + 200 = 450 \<and>
   sum_list (map height (generatePipes 0 mounted)) + PIPE_GAP \<noteq> HEIGHT"
  by (simp add: generatePipes_def newPipe_def game_consts Let_def mounted_def)

subsection \<open>Spawning\<close>

text \<open>
  Claim C6, as the code has it. A tick increments the frame counter first. The pair is
  generated and appended exactly when the incremented counter is a multiple of 240: the
  pipes after the tick are the surviving old pipes, each moved, followed by the two new
  pipes, moved as well, in such a tick and by nothing in any other.
\<close>

theorem spawn_after_increment:
  "frameCount (update r g) = frameCount g + 1 \<and>
   pipes (update r g) =
     filter (\<lambda>p. \<not> isDead p) (map (visited (bird g)) (pipes g)) @
     (if frameCount (update r g) mod 240 = 0
      then map (visited (bird g)) (generatePipes r g) else []) \<and>
   length (generatePipes r g) = 2"
proof -
  have "length (generatePipes r g) = 2"
    using generatePipes_shape [of r g] by auto
  then show ?thesis
    by (simp add: update_frameCount update_pipes spawned_def filter_visited_generated)
qed

text \<open>
  With the check first and the increment last, the first tick of a session, whose counter
  is 0, would spawn, and the tick that starts with counter 239 would not. The code does the
  opposite on both.
\<close>

theorem spawn_order_counterexample:
  "frameCount mounted mod 240 = 0 \<and> pipes (update 0 mounted) = [] \<and>
   frameCount (mounted\<lparr>frameCount := 239\<rparr>) mod 240 \<noteq> 0 \<and>
   length (pipes (update 0 (mounted\<lparr>frameCount := 239\<rparr>))) = 2"
proof -
  have "length (generatePipes 0 (mounted\<lparr>frameCount := 239\<rparr>)) = 2"
    using generatePipes_shape [of 0 "mounted\<lparr>frameCount := 239\<rparr>"] by auto
  then show ?thesis
    by (simp add: update_pipes spawned_def filter_visited_generated) (simp add: mounted_def)
qed

subsection \<open>Restart\<close>

text \<open>
  Claim C8. \<open>restart\<close> on a session that is over leaves an idle session with score 0, no
  pipes, frame counter 0 and a new bird at its spawn position (150, 250) with velocity 0;
  the start trigger is accepted there.
\<close>

theorem restart_while_over:
  assumes "session_state g = Over"
  shows "session_state (restart g) = Idle \<and> score (restart g) = 0 \<and>
         pipes (restart g) = [] \<and> frameCount (restart g) = 0 \<and>
         bird (restart g) = newBird \<and>
         bird_x (bird (restart g)) = 150 \<and> bird_y (bird (restart g)) = HEIGHT / 2 \<and>
         velocity (bird (restart g)) = 0 \<and>
         gameStarted (startGame (restart g))"
  by (simp add: restart_fields session_state_def startGame_def setLoop_def newBird_def)

theorem restart_while_over_witness:
  "session_state crashed = Over \<and> score crashed = 4 \<and> length (pipes crashed) = 2 \<and>
   session_state (restart crashed) = Idle \<and> score (restart crashed) = 0 \<and>
   pipes (restart crashed) = [] \<and> frameCount (restart crashed) = 0 \<and>
   bird (restart crashed) = newBird"
proof -
  have h: "session_state crashed = Over"
    by (simp add: session_state_def crashed_def mounted_def)
  show ?thesis
    using h restart_while_over [OF h] by (simp add: crashed_def mounted_def)
qed

subsection \<open>Triggers that arrive in the wrong state\<close>

lemmas handler_defs = startGame_def setLoop_def togglePause_def clearLoop_def restart_def
  initGame_def onClick_def session_state_def Let_def

text \<open>The pause toggle changes nothing of a session that is over, and a click on an
  idle session starts it without touching the bird.\<close>

lemma pause_while_over_noop:
  "session_state g = Over \<Longrightarrow> togglePause g = g \<and> onKeyDown KeyP g = g"
  by (simp add: session_state_def togglePause_def split: if_splits)

lemma click_while_idle:
  "session_state g = Idle \<Longrightarrow> bird (onClick g) = bird g"
  by (simp add: session_state_def onClick_def startGame_def setLoop_def split: if_splits)

text \<open>The Space key on an idle session starts it and then tests the jump guard on the
  session it has just started: the bird jumps unless the paused flag is set.\<close>

lemma space_while_idle:
  "session_state g = Idle \<Longrightarrow>
     bird (onKeyDown Space g) = (if paused g then bird g else jump (bird g))"
  by (simp add: session_state_def startGame_def setLoop_def Let_def split: if_splits)

text \<open>
  Claim C9. A jump trigger that arrives while the session is idle should leave the
  velocity of the bird as it is. On the mounted game, which is idle with velocity 0, the
  Space key leaves a running session whose bird has velocity \<open>- 8\<close>; a click leaves a
  running session whose bird still has velocity 0.
\<close>

theorem space_while_idle_jumps:
  "session_state mounted = Idle \<and> velocity (bird mounted) = 0 \<and>
   session_state (onKeyDown Space mounted) = Running \<and>
   velocity (bird (onKeyDown Space mounted)) = - 8 \<and>
   session_state (onClick mounted) = Running \<and>
   velocity (bird (onClick mounted)) = 0"
  by (simp add: mounted_def handler_defs jump_def newBird_def)

subsection \<open>Restart and the interval timers\<close>

text \<open>\<open>restart\<close> clears the interval whose handle \<^verbatim>\<open>this.loop\<close> holds, which stops the
  clock when no other interval is active.\<close>

lemma restart_clears_loop:
  "loop g = Some h \<Longrightarrow> h \<noteq> 0 \<Longrightarrow> h \<notin> active (restart g)"
  by (simp add: restart_active)

lemma restart_stops_single_clock:
  "loop g = Some h \<Longrightarrow> h \<noteq> 0 \<Longrightarrow> active g \<subseteq> {h} \<Longrightarrow> active (restart g) = {}"
  by (auto simp add: restart_active)

lemma leaked_eq:
  "leaked =
     \<lparr>gameStarted = True, gameOver = False, score = 0, paused = False, frameCount = 0,
      pipes = [], bird = newBird, loop = Some 3, active = {2, 3}, nextHandle = 4,
      submitted = []\<rparr>"
  by (auto simp add: leaked_def mounted_def handler_defs)

text \<open>
  Claim C10. \<open>restart\<close> should stop the clock in every state. After the keys Space, P, R,
  Space, P the session is running on two intervals, 2 and 3, of which \<^verbatim>\<open>this.loop\<close> holds
  the second: the restart from Paused kept the paused flag, the start that followed set
  interval 2 and the pause toggle that followed set interval 3 beside it. \<open>restart\<close> in
  this state clears interval 3 only. The session it leaves is idle and reset, interval 2
  is still active, and its next callback advances the idle session by a tick.
\<close>

theorem restart_leaves_interval:
  "session_state leaked = Running \<and> loop leaked = Some 3 \<and> active leaked = {2, 3} \<and>
   active (restart leaked) = {2} \<and>
   session_state (restart leaked) = Idle \<and> paused (restart leaked) = False \<and>
   frameCount (restart leaked) = 0 \<and>
   frameCount (gameLoop 0 (restart leaked)) = 1 \<and>
   bird (gameLoop 0 (restart leaked)) = Bird_update newBird"
  by (auto simp add: leaked_eq restart_fields restart_active session_state_def gameLoop_def
      update_frameCount update_bird)

end
